theory Spec2Isabelle
  imports Complex_Main "HOL-Library.AList"
begin

section \<open>Values of the Python program\<close>

text \<open>
  A Python float is modelled as an exact rational or the not-a-number value \<open>NaN\<close>
  (\<open>np.nan\<close> in the source). Arithmetic on finite values is exact: binary rounding
  error and the infinities are not modelled. Python's int \<open>0\<close> and float \<open>0.0\<close> are
  the same number \<open>Fin 0\<close>.
\<close>

datatype pyfloat = Fin rat | NaN

text \<open>Exceptions of the program, as values.\<close>

datatype error =
    KeyError string
  | IndexError
  | ValueError
  | ZeroDivisionError
  | SourceError string
  | CephError string
  | ColumnsException "string list" "string list"

text \<open>
  One collected sample (a value of \<open>collected_info[sli_name]\<close>): a float, or the string
  \<open>"ErrorMetricRetrieval"\<close> that \<open>collect_metrics\<close> stores when a query failed.
\<close>

datatype sample = Num pyfloat | ErrorMetricRetrieval

text \<open>A dict is an association list in insertion order; \<open>d[k]\<close> raises KeyError.\<close>

definition getitem :: "(string \<times> 'v) list \<Rightarrow> string \<Rightarrow> error + 'v" where
  "getitem d k = (case map_of d k of None \<Rightarrow> Inl (KeyError k) | Some v \<Rightarrow> Inr v)"

definition bind_err :: "error + 'a \<Rightarrow> ('a \<Rightarrow> error + 'b) \<Rightarrow> error + 'b" where
  "bind_err m f = (case m of Inl e \<Rightarrow> Inl e | Inr x \<Rightarrow> f x)"

subsection \<open>Float operations\<close>

text \<open>\<open>a != b\<close>: a comparison with NaN is never an equality.\<close>

fun py_ne :: "pyfloat \<Rightarrow> pyfloat \<Rightarrow> bool" where
  "py_ne (Fin x) (Fin y) = (x \<noteq> y)"
| "py_ne _ _ = True"

text \<open>\<open>a > b\<close> and \<open>a < b\<close>: False when either side is NaN.\<close>

fun py_gt :: "pyfloat \<Rightarrow> pyfloat \<Rightarrow> bool" where
  "py_gt (Fin x) (Fin y) = (x > y)"
| "py_gt _ _ = False"

fun py_lt :: "pyfloat \<Rightarrow> pyfloat \<Rightarrow> bool" where
  "py_lt (Fin x) (Fin y) = (x < y)"
| "py_lt _ _ = False"

text \<open>\<open>a / b\<close>: Python raises ZeroDivisionError on a zero divisor.\<close>

fun py_div :: "pyfloat \<Rightarrow> pyfloat \<Rightarrow> error + pyfloat" where
  "py_div a (Fin y) =
     (if y = 0 then Inl ZeroDivisionError
      else (case a of Fin x \<Rightarrow> Inr (Fin (x / y)) | NaN \<Rightarrow> Inr NaN))"
| "py_div a NaN = Inr NaN"

fun py_mul :: "pyfloat \<Rightarrow> pyfloat \<Rightarrow> pyfloat" where
  "py_mul (Fin x) (Fin y) = Fin (x * y)"
| "py_mul _ _ = NaN"

fun py_sub :: "pyfloat \<Rightarrow> pyfloat \<Rightarrow> pyfloat" where
  "py_sub (Fin x) (Fin y) = Fin (x - y)"
| "py_sub _ _ = NaN"

fun py_abs :: "pyfloat \<Rightarrow> pyfloat" where
  "py_abs (Fin x) = Fin \<bar>x\<bar>"
| "py_abs NaN = NaN"

text \<open>Rounding to the nearest integer, ties to the even one (Python's rounding mode).\<close>

definition round_half_even :: "rat \<Rightarrow> int" where
  "round_half_even x =
     (let f = \<lfloor>x\<rfloor>; d = x - of_int f
      in if d < 1 / 2 then f
         else if 1 / 2 < d then f + 1
         else if even f then f else f + 1)"

text \<open>\<open>round(x, 3)\<close>; \<open>round(nan, 3)\<close> is nan.\<close>

fun py_round3 :: "pyfloat \<Rightarrow> pyfloat" where
  "py_round3 (Fin x) = Fin (of_int (round_half_even (x * 1000)) / 1000)"
| "py_round3 NaN = NaN"

section \<open>sli\_user\_api.py\<close>

record unit_data =
  name :: string
  measurement_unit :: string
  quantities :: "string list option"

definition USER_API_MEASUREMENT_UNIT :: "(string \<times> unit_data) list" where
  "USER_API_MEASUREMENT_UNIT =
     [(''avg_percentage_successfull_request'',
         \<lparr>name = ''Successfull requests User-API (avg)'',
          measurement_unit = ''%'',
          quantities = Some [''avg_total_request'', ''avg_successfull_request'']\<rparr>),
      (''avg_up_time'',
         \<lparr>name = ''Uptime User-API (avg)'',
          measurement_unit = ''%'',
          quantities = None\<rparr>)]"

definition sli_columns :: "string list" where
  "sli_columns = map fst USER_API_MEASUREMENT_UNIT"

text \<open>\<open>self.total_columns = self.default_columns + self.sli_columns\<close>; the default
  columns come from the base class, which is a parameter here.\<close>

definition total_columns :: "string list \<Rightarrow> string list" where
  "total_columns default_columns = default_columns @ sli_columns"

text \<open>The \<open>change\<close> entry is a formatted string, or the float itself.\<close>

datatype change = ChangeStr string | ChangeNum pyfloat

text \<open>One entry of \<open>html_inputs\<close>; \<open>hi_change = None\<close> when the key is not set.\<close>

record html_input =
  hi_value :: pyfloat
  hi_name :: string
  hi_measurement_unit :: string
  hi_change :: "change option"

type_synonym sli_dict = "(string \<times> sample) list"
type_synonym html_inputs = "(string \<times> html_input) list"

text \<open>Lines 113-118: the \<open>results\<close> dict, NaN for a sample that is the error string.\<close>

fun collect_results :: "sli_dict \<Rightarrow> string list \<Rightarrow> (string \<times> pyfloat) list
    \<Rightarrow> error + (string \<times> pyfloat) list" where
  "collect_results sli [] results = Inr results"
| "collect_results sli (quantity # rest) results =
     bind_err (getitem sli quantity) (\<lambda>s.
       collect_results sli rest
         (AList.update quantity (case s of Num v \<Rightarrow> v | ErrorMetricRetrieval \<Rightarrow> NaN) results))"

text \<open>Lines 112-134: the \<open>value\<close> of one quantity.\<close>

definition evaluate_value :: "sli_dict \<Rightarrow> string \<Rightarrow> unit_data \<Rightarrow> error + pyfloat" where
  "evaluate_value sli user_api_quantity user_api_quantity_data =
     (if user_api_quantity = ''avg_percentage_successfull_request'' then
        bind_err (case quantities user_api_quantity_data of
                    None \<Rightarrow> Inl (KeyError ''quantities'') | Some qs \<Rightarrow> Inr qs) (\<lambda>qs.
        bind_err (collect_results sli qs []) (\<lambda>results.
          if list_all (\<lambda>single_quantity. py_ne single_quantity NaN) (map snd results) then
            bind_err (getitem results ''avg_total_request'') (\<lambda>total.
            bind_err (if py_gt total (Fin 0)
                      then bind_err (getitem results ''avg_successfull_request'')
                             (\<lambda>success. py_div success total)
                      else Inr (Fin 0)) (\<lambda>percentage.
              Inr (py_abs (py_round3 (py_mul percentage (Fin 100))))))
          else Inr NaN))
      else
        bind_err (getitem sli user_api_quantity) (\<lambda>s.
          case s of
            Num v \<Rightarrow> Inr (py_abs (py_round3 (py_mul v (Fin 100))))
          | ErrorMetricRetrieval \<Rightarrow> Inr NaN))"

text \<open>Lines 108-137: the loop over the keys of the measurement-unit table.\<close>

fun evaluate_loop :: "sli_dict \<Rightarrow> (string \<times> unit_data) list \<Rightarrow> html_inputs
    \<Rightarrow> error + html_inputs" where
  "evaluate_loop sli [] html_inputs = Inr html_inputs"
| "evaluate_loop sli ((user_api_quantity, user_api_quantity_data) # rest) html_inputs =
     bind_err (evaluate_value sli user_api_quantity user_api_quantity_data) (\<lambda>v.
       evaluate_loop sli rest
         (AList.update user_api_quantity
            \<lparr>hi_value = v,
             hi_name = name user_api_quantity_data,
             hi_measurement_unit = measurement_unit user_api_quantity_data,
             hi_change = None\<rparr> html_inputs))"

definition evaluate_sli :: "sli_dict \<Rightarrow> error + html_inputs" where
  "evaluate_sli sli = evaluate_loop sli USER_API_MEASUREMENT_UNIT []"

text \<open>The \<open>value\<close> entry of a quantity in the evaluator's result, when there is one.\<close>

definition value_of :: "error + html_inputs \<Rightarrow> string \<Rightarrow> pyfloat option" where
  "value_of r q = (case r of Inl e \<Rightarrow> None | Inr h \<Rightarrow> map_option hi_value (map_of h q))"

subsection \<open>The report step\<close>

text \<open>Decimal digits of a natural number, as \<open>str\<close> prints them.\<close>

definition digit_char :: "nat \<Rightarrow> char" where
  "digit_char d = char_of (48 + d)"

fun str_nat :: "nat \<Rightarrow> string" where
  "str_nat n = (if n < 10 then [digit_char n] else str_nat (n div 10) @ [digit_char (n mod 10)])"

declare str_nat.simps [simp del]

text \<open>
  \<open>"{:.3f}".format(x)\<close>: the sign of a negative number, the integer part, a point and
  three decimals of the magnitude rounded to thousandths; \<open>nan\<close> for NaN.
\<close>

fun format_3f :: "pyfloat \<Rightarrow> string" where
  "format_3f NaN = ''nan''"
| "format_3f (Fin x) =
     (let n = nat (round_half_even (\<bar>x\<bar> * 1000))
      in (if x < 0 then ''-'' else []) @ str_nat (n div 1000) @ ''.'' @
         [digit_char (n div 100 mod 10), digit_char (n div 10 mod 10), digit_char (n mod 10)])"

text \<open>
  The data frame \<open>last_week_data\<close>: each named column with its cells, one per row.
  Cells are floats, a missing cell is NaN (as pandas reads it).
\<close>

type_synonym frame = "(string \<times> pyfloat list) list"

text \<open>Lines 154-159: the \<open>change\<close> entry for a difference.\<close>

definition change_of :: "pyfloat \<Rightarrow> change" where
  "change_of diff =
     (if py_gt diff (Fin 0) then ChangeStr (''+'' @ format_3f diff)
      else if py_lt diff (Fin 0) then ChangeStr (''-'' @ format_3f diff)
      else ChangeNum diff)"

text \<open>Lines 152-159: \<open>(value - last_week_data[c])[0].item()\<close> raises KeyError when
  the frame has no row 0.\<close>

fun report_loop :: "frame \<Rightarrow> string list \<Rightarrow> html_inputs \<Rightarrow> error + html_inputs" where
  "report_loop last_week_data [] html_inputs = Inr html_inputs"
| "report_loop last_week_data (c # cs) html_inputs =
     bind_err (getitem html_inputs c) (\<lambda>entry.
     bind_err (getitem last_week_data c) (\<lambda>series.
     bind_err (case series of [] \<Rightarrow> Inl (KeyError ''0'')
               | prior # _ \<Rightarrow> Inr (py_sub (hi_value entry) prior)) (\<lambda>diff.
       report_loop last_week_data cs
         (AList.update c (entry\<lparr>hi_change := Some (change_of diff)\<rparr>) html_inputs))))"

text \<open>
  Lines 146-159. Retrieving the prior snapshot from Ceph and parsing it with
  \<open>pd.read_csv\<close> happen outside the given sources: their outcome is the parameter
  \<open>retrieved\<close>, an exception or the frame read.
\<close>

definition report_html_inputs :: "sli_dict \<Rightarrow> error + frame \<Rightarrow> error + html_inputs" where
  "report_html_inputs sli retrieved =
     bind_err (evaluate_sli sli) (\<lambda>html_inputs.
     bind_err retrieved (\<lambda>last_week_data.
       report_loop last_week_data sli_columns html_inputs))"

text \<open>Lines 161-162: the template renders the inputs; it is a parameter.\<close>

definition report_sli ::
  "(html_inputs \<Rightarrow> string) \<Rightarrow> sli_dict \<Rightarrow> error + frame \<Rightarrow> error + string" where
  "report_sli template sli retrieved =
     bind_err (report_html_inputs sli retrieved) (\<lambda>html_inputs. Inr (template html_inputs))"

section \<open>app.py\<close>

subsection \<open>collect\_metrics\<close>

text \<open>
  An entry of \<open>sli_methods["query"]\<close>: a plain query string, or a dict with the keys
  \<open>query\<close>, \<open>requires_range\<close> and \<open>type\<close>.
\<close>

datatype query_inputs = QueryStr string | QueryDict string bool string

text \<open>
  The sample string \<open>v[1]\<close> that Prometheus returns, as \<open>float()\<close> reads it:
  \<open>None\<close> when \<open>float()\<close> raises ValueError.
\<close>

type_synonym raw = "pyfloat option"

definition float_of :: "raw \<Rightarrow> error + pyfloat" where
  "float_of r = (case r of None \<Rightarrow> Inl ValueError | Some v \<Rightarrow> Inr v)"

text \<open>
  The Prometheus client \<open>pc\<close>: each call raises or returns a list of results, a range
  result holding its \<open>values\<close> series and an instant result its \<open>value\<close>.
\<close>

record prometheus =
  custom_query_range :: "string \<Rightarrow> error + raw list list"
  custom_query :: "string \<Rightarrow> error + raw list"

text \<open>\<open>xs[0]\<close> raises IndexError on an empty list.\<close>

fun first :: "'a list \<Rightarrow> error + 'a" where
  "first [] = Inl IndexError"
| "first (x # xs) = Inr x"

text \<open>Line 108: \<open>[float(v[1]) for v in values if float(v[1]) > 0]\<close>.\<close>

fun metrics_vector_of :: "raw list \<Rightarrow> error + pyfloat list" where
  "metrics_vector_of [] = Inr []"
| "metrics_vector_of (v # vs) =
     bind_err (float_of v) (\<lambda>x.
     bind_err (metrics_vector_of vs) (\<lambda>rest.
       Inr (if py_gt x (Fin 0) then x # rest else rest)))"

text \<open>
  Lines 92-119, the body of the \<open>try\<close>. \<open>manipulate_retrieved_metrics_vector\<close> is
  defined outside the given sources and is the parameter \<open>manipulate\<close>.
\<close>

definition query_result ::
  "bool \<Rightarrow> prometheus \<Rightarrow> (pyfloat list \<Rightarrow> string \<Rightarrow> error + pyfloat)
    \<Rightarrow> string \<Rightarrow> bool \<Rightarrow> string \<Rightarrow> error + pyfloat" where
  "query_result dry_run pc manipulate query requires_range action_type =
     (if \<not> dry_run then
        (if requires_range then
           bind_err (custom_query_range pc query) (\<lambda>metric_data.
           bind_err (first metric_data) (\<lambda>vals.
           bind_err (metrics_vector_of vals) (\<lambda>metrics_vector.
             manipulate metrics_vector action_type)))
         else
           bind_err (custom_query pc query) (\<lambda>metric_data.
           bind_err (first metric_data) float_of))
      else Inr (Fin 0))"

text \<open>
  Lines 79-124 for one query: \<open>except Exception\<close> stores the error string. The
  \<open>action_type\<close> of a plain query string is never read, as \<open>requires_range\<close> is False.
\<close>

definition collect_query ::
  "bool \<Rightarrow> prometheus \<Rightarrow> (pyfloat list \<Rightarrow> string \<Rightarrow> error + pyfloat)
    \<Rightarrow> query_inputs \<Rightarrow> sample" where
  "collect_query dry_run pc manipulate query_inputs =
     (case (case query_inputs of
              QueryDict query requires_range action_type \<Rightarrow>
                query_result dry_run pc manipulate query requires_range action_type
            | QueryStr query \<Rightarrow>
                query_result dry_run pc manipulate query False []) of
        Inl e \<Rightarrow> ErrorMetricRetrieval
      | Inr result \<Rightarrow> Num result)"

text \<open>A row to store: the cells by column name.\<close>

datatype cell = CellStr string | CellInt int | CellSample sample

type_synonym row = "(string \<times> cell) list"

text \<open>The entries of \<open>_aggregate_info()\<close> that \<open>app.py\<close> reads outside the report.\<close>

record sli_methods =
  query :: "(string \<times> query_inputs) list"
  df_method :: "sli_dict \<Rightarrow> string \<Rightarrow> int \<Rightarrow> error + row"

type_synonym sli_context = "(string \<times> sli_methods) list"





subsection \<open>store\_sli\_periodic\_metrics\_to\_ceph\<close>

text \<open>
  A call of \<open>store_thoth_sli_on_ceph\<close>. An exception it raises is caught and logged
  (lines 162-180), so the calls made do not depend on their outcomes.
\<close>

record store_call =
  is_public :: bool
  ceph_path :: string
  metrics_df :: row

text \<open>Lines 147-157: the row of one metric class, or the exception raised.\<close>

definition inputs_for_df ::
  "sli_context \<Rightarrow> (string \<times> string list) list \<Rightarrow> string \<Rightarrow> int
    \<Rightarrow> string \<Rightarrow> sli_dict \<Rightarrow> error + row" where
  "inputs_for_df report_sli_context report_sli_context_columns datetime timestamp
       metric_class metrics =
     bind_err (getitem report_sli_context metric_class) (\<lambda>methods.
     bind_err (df_method methods metrics datetime timestamp) (\<lambda>inputs_for_df_sli.
     bind_err (getitem report_sli_context_columns metric_class) (\<lambda>csv_columns.
       if map fst inputs_for_df_sli \<noteq> csv_columns
       then Inl (ColumnsException (map fst inputs_for_df_sli) csv_columns)
       else Inr inputs_for_df_sli)))"

text \<open>Lines 146-180: the calls made so far and the exception that ended the loop.\<close>

fun store_loop ::
  "sli_context \<Rightarrow> (string \<times> string list) list \<Rightarrow> string \<Rightarrow> int
    \<Rightarrow> (string \<times> sli_dict) list \<Rightarrow> store_call list \<Rightarrow> store_call list \<times> error option" where
  "store_loop ctx cols datetime timestamp [] calls = (calls, None)"
| "store_loop ctx cols datetime timestamp ((metric_class, metrics) # rest) calls =
     (case inputs_for_df ctx cols datetime timestamp metric_class metrics of
        Inl e \<Rightarrow> (calls, Some e)
      | Inr df \<Rightarrow>
          (let path = metric_class @ ''/'' @ metric_class @ ''-'' @ datetime @ ''.csv''
           in store_loop ctx cols datetime timestamp rest
                (calls @ [\<lparr>is_public = False, ceph_path = path, metrics_df = df\<rparr>,
                          \<lparr>is_public = True, ceph_path = path, metrics_df = df\<rparr>])))"

definition store_sli_periodic_metrics_to_ceph ::
  "(string \<times> sli_dict) list \<Rightarrow> sli_context \<Rightarrow> (string \<times> string list) list
    \<Rightarrow> string \<Rightarrow> int \<Rightarrow> store_call list \<times> error option" where
  "store_sli_periodic_metrics_to_ceph periodic_metrics ctx cols datetime timestamp =
     store_loop ctx cols datetime timestamp periodic_metrics []"

subsection \<open>push\_thoth\_sli\_periodic\_metrics\<close>




section \<open>Predicates used to state the properties\<close>

text \<open>The entry of column \<open>c\<close> exists and has its \<open>change\<close> key set.\<close>

definition has_change :: "html_inputs \<Rightarrow> string \<Rightarrow> bool" where
  "has_change h c = (case map_of h c of None \<Rightarrow> False | Some entry \<Rightarrow> hi_change entry \<noteq> None)"

text \<open>A frame without rows: what an empty snapshot is read as.\<close>

definition no_rows :: "frame \<Rightarrow> bool" where
  "no_rows last_week_data = list_all (\<lambda>(c, series). series = []) last_week_data"





text \<open>A store call writes the row of some metric class under that class's path, with
  exactly the columns declared for the class.\<close>

definition declared :: "(string \<times> string list) list \<Rightarrow> string \<Rightarrow> store_call \<Rightarrow> bool" where
  "declared cols datetime call =
     list_ex (\<lambda>(metric_class, csv_columns).
        ceph_path call = metric_class @ ''/'' @ metric_class @ ''-'' @ datetime @ ''.csv'' \<and>
        map fst (metrics_df call) = csv_columns) cols"

section \<open>Properties of the evaluation\<close>

lemma all_ne_nan: "list_all (\<lambda>single_quantity. py_ne single_quantity NaN) xs"
  by (induction xs) (auto elim: py_ne.elims)

lemma round_half_even_0 [simp]: "round_half_even 0 = 0"
  by (simp add: round_half_even_def)



lemma evaluate_sli_present:
  assumes "map_of sli ''avg_total_request'' = Some t"
    and "map_of sli ''avg_successfull_request'' = Some s"
    and "map_of sli ''avg_up_time'' = Some u"
  shows "evaluate_sli sli =
     Inr [(''avg_percentage_successfull_request'',
           \<lparr>hi_value =
              (let total = (case t of Num v \<Rightarrow> v | ErrorMetricRetrieval \<Rightarrow> NaN);
                   success = (case s of Num v \<Rightarrow> v | ErrorMetricRetrieval \<Rightarrow> NaN)
               in if py_gt total (Fin 0)
                  then py_abs (py_round3 (py_mul
                         (case py_div success total of Inr p \<Rightarrow> p | Inl e \<Rightarrow> NaN) (Fin 100)))
                  else Fin 0),
            hi_name = ''Successfull requests User-API (avg)'',
            hi_measurement_unit = ''%'', hi_change = None\<rparr>),
          (''avg_up_time'',
           \<lparr>hi_value = (case u of Num v \<Rightarrow> py_abs (py_round3 (py_mul v (Fin 100)))
                         | ErrorMetricRetrieval \<Rightarrow> NaN),
            hi_name = ''Uptime User-API (avg)'',
            hi_measurement_unit = ''%'', hi_change = None\<rparr>)]"
  using assms
  apply (simp add: evaluate_sli_def USER_API_MEASUREMENT_UNIT_def evaluate_value_def bind_err_def getitem_def all_ne_nan Let_def split: sample.splits)
  apply (auto elim!: py_gt.elims split: sample.splits pyfloat.splits)
  done


text \<open>
  Claim C1 (unavailable samples give NaN). The comparison \<open>!= np.nan\<close> of line 120 is
  always true (\<open>all_ne_nan\<close>), so line 128 is never reached: when all three queries are
  unavailable the ratio quantity is evaluated to 0, not to NaN. Only the up-time quantity
  is NaN.
\<close>

theorem evaluate_sli_all_unavailable:
  "evaluate_sli [(''avg_total_request'', ErrorMetricRetrieval),
                 (''avg_successfull_request'', ErrorMetricRetrieval),
                 (''avg_up_time'', ErrorMetricRetrieval)] =
   Inr [(''avg_percentage_successfull_request'',
         \<lparr>hi_value = Fin 0, hi_name = ''Successfull requests User-API (avg)'',
          hi_measurement_unit = ''%'', hi_change = None\<rparr>),
        (''avg_up_time'',
         \<lparr>hi_value = NaN, hi_name = ''Uptime User-API (avg)'',
          hi_measurement_unit = ''%'', hi_change = None\<rparr>)]"
  by (simp add: evaluate_sli_present)

text \<open>
  Claim C5: when the sample of \<open>avg_total_request\<close> is unavailable or zero, the evaluator
  returns and the value of \<open>avg_percentage_successfull_request\<close> is 0, whatever the sample
  of \<open>avg_successfull_request\<close> is; no division is attempted.
\<close>

theorem evaluate_sli_zero_denominator:
  assumes "map_of sli ''avg_total_request'' = Some t"
    and "t = ErrorMetricRetrieval \<or> t = Num (Fin 0)"
    and "map_of sli ''avg_successfull_request'' = Some s"
    and "map_of sli ''avg_up_time'' = Some u"
  shows "value_of (evaluate_sli sli) ''avg_percentage_successfull_request'' = Some (Fin 0)"
  using assms(2) by (auto simp: evaluate_sli_present [OF assms(1,3,4)] value_of_def)

theorem evaluate_sli_zero_denominator_witness:
  "value_of (evaluate_sli [(''avg_total_request'', Num (Fin 0)),
                           (''avg_successfull_request'', Num (Fin 0)),
                           (''avg_up_time'', Num (Fin 1))])
     ''avg_percentage_successfull_request'' = Some (Fin 0) \<and>
   value_of (evaluate_sli [(''avg_total_request'', ErrorMetricRetrieval),
                           (''avg_successfull_request'', Num (Fin 95)),
                           (''avg_up_time'', Num (Fin 1))])
     ''avg_percentage_successfull_request'' = Some (Fin 0)"
proof
  show "value_of (evaluate_sli [(''avg_total_request'', Num (Fin 0)),
                           (''avg_successfull_request'', Num (Fin 0)),
                           (''avg_up_time'', Num (Fin 1))])
     ''avg_percentage_successfull_request'' = Some (Fin 0)"
    by (rule evaluate_sli_zero_denominator
          [where t = "Num (Fin 0)" and s = "Num (Fin 0)" and u = "Num (Fin 1)"]) simp_all
  show "value_of (evaluate_sli [(''avg_total_request'', ErrorMetricRetrieval),
                           (''avg_successfull_request'', Num (Fin 95)),
                           (''avg_up_time'', Num (Fin 1))])
     ''avg_percentage_successfull_request'' = Some (Fin 0)"
    by (rule evaluate_sli_zero_denominator
          [where t = ErrorMetricRetrieval and s = "Num (Fin 95)" and u = "Num (Fin 1)"]) simp_all
qed

text \<open>
  Claim C10: for every sample mapping holding the three query keys, the evaluator returns
  exactly one entry per declared quantity, in the order of the table, with the name and
  the measurement unit of the table (and no change entry); the samples decide only the
  value.
\<close>

theorem evaluate_sli_entries:
  assumes "map_of sli ''avg_total_request'' = Some t"
    and "map_of sli ''avg_successfull_request'' = Some s"
    and "map_of sli ''avg_up_time'' = Some u"
  shows "\<exists>h. evaluate_sli sli = Inr h \<and>
           map (\<lambda>(q, e). (q, hi_name e, hi_measurement_unit e, hi_change e)) h =
           map (\<lambda>(q, d). (q, name d, measurement_unit d, None)) USER_API_MEASUREMENT_UNIT"
  by (simp add: evaluate_sli_present [OF assms] USER_API_MEASUREMENT_UNIT_def)

theorem evaluate_sli_entries_witness:
  "\<exists>h. evaluate_sli [(''avg_total_request'', ErrorMetricRetrieval),
                      (''avg_successfull_request'', Num (Fin 95)),
                      (''avg_up_time'', Num NaN)] = Inr h \<and>
       map (\<lambda>(q, e). (q, hi_name e, hi_measurement_unit e, hi_change e)) h =
       map (\<lambda>(q, d). (q, name d, measurement_unit d, None)) USER_API_MEASUREMENT_UNIT"
  by (rule evaluate_sli_entries [where t = ErrorMetricRetrieval and s = "Num (Fin 95)" and u = "Num NaN"]) simp_all







section \<open>Properties of the report step\<close>

lemma digit_char_simps:
  "digit_char 0 = CHR ''0''" "digit_char 1 = CHR ''1''" "digit_char 2 = CHR ''2''"
  "digit_char 3 = CHR ''3''" "digit_char 4 = CHR ''4''" "digit_char 5 = CHR ''5''"
  "digit_char 6 = CHR ''6''" "digit_char 7 = CHR ''7''" "digit_char 8 = CHR ''8''"
  "digit_char 9 = CHR ''9''"
  by code_simp+

lemmas report_eval =
  report_html_inputs_def evaluate_sli_present sli_columns_def USER_API_MEASUREMENT_UNIT_def
  bind_err_def getitem_def change_of_def round_half_even_def Let_def digit_char_simps
  str_nat.simps

text \<open>The sign of a negative difference is printed twice; a positive difference gets
  one \<open>+\<close>, and a zero difference is stored as the number.\<close>

lemma change_of_negative:
  assumes "x < 0"
  shows "\<exists>rest. change_of (Fin x) = ChangeStr (CHR ''-'' # CHR ''-'' # rest)"
  using assms by (simp add: change_of_def Let_def)

lemma change_of_positive:
  assumes "0 < x"
  shows "change_of (Fin x) = ChangeStr (CHR ''+'' # format_3f (Fin x))"
  using assms by (simp add: change_of_def)

lemma change_of_zero: "change_of (Fin 0) = ChangeNum (Fin 0)"
  by (simp add: change_of_def)

text \<open>
  Claim C2 (the change is the signed difference, with one leading sign). With the values
  95 and 90 evaluated now and 90 and 95 stored for the prior period, the differences are
  5 and -5: the first change is \<open>+5.000\<close>, the second is \<open>--5.000\<close>, as line 157 puts a
  minus sign before the formatted negative number.
\<close>

theorem report_negative_change:
  "report_html_inputs
     [(''avg_total_request'', Num (Fin 100)),
      (''avg_successfull_request'', Num (Fin 95)),
      (''avg_up_time'', Num (Fin (9 / 10)))]
     (Inr [(''datetime'', [Fin 0]), (''timestamp'', [Fin 0]),
           (''avg_percentage_successfull_request'', [Fin 90]),
           (''avg_up_time'', [Fin 95])]) =
   Inr [(''avg_percentage_successfull_request'',
         \<lparr>hi_value = Fin 95, hi_name = ''Successfull requests User-API (avg)'',
          hi_measurement_unit = ''%'', hi_change = Some (ChangeStr ''+5.000'')\<rparr>),
        (''avg_up_time'',
         \<lparr>hi_value = Fin 90, hi_name = ''Uptime User-API (avg)'',
          hi_measurement_unit = ''%'', hi_change = Some (ChangeStr ''--5.000'')\<rparr>)]"
  by (simp add: report_eval)

lemma sli_columns_eq:
  "sli_columns = [''avg_percentage_successfull_request'', ''avg_up_time'']"
  by (simp add: sli_columns_def USER_API_MEASUREMENT_UNIT_def)

lemma report_loop_step:
  assumes "report_loop lw (c # cs) h = Inr h'"
  obtains entry prior rest where "map_of h c = Some entry" and "map_of lw c = Some (prior # rest)"
    and "report_loop lw cs (AList.update c
           (entry\<lparr>hi_change := Some (change_of (py_sub (hi_value entry) prior))\<rparr>) h) = Inr h'"
  using assms
  by (auto simp: bind_err_def getitem_def split: option.splits list.splits)

lemma report_loop_keeps:
  assumes "report_loop lw cs h = Inr h'" and "has_change h c"
  shows "has_change h' c"
  using assms
proof (induction cs arbitrary: h)
  case Nil
  then show ?case by simp
next
  case (Cons c' cs)
  from Cons.prems(1) obtain entry prior where
    r: "report_loop lw cs (AList.update c'
          (entry\<lparr>hi_change := Some (change_of (py_sub (hi_value entry) prior))\<rparr>) h) = Inr h'"
    by (rule report_loop_step)
  have "has_change (AList.update c'
          (entry\<lparr>hi_change := Some (change_of (py_sub (hi_value entry) prior))\<rparr>) h) c"
    using Cons.prems(2) by (simp add: has_change_def update_conv')
  with r show ?case by (rule Cons.IH)
qed

lemma report_loop_sets:
  assumes "report_loop lw cs h = Inr h'" and "c \<in> set cs"
  shows "has_change h' c"
  using assms
proof (induction cs arbitrary: h)
  case Nil
  then show ?case by simp
next
  case (Cons c' cs)
  from Cons.prems(1) obtain entry prior where
    r: "report_loop lw cs (AList.update c'
          (entry\<lparr>hi_change := Some (change_of (py_sub (hi_value entry) prior))\<rparr>) h) = Inr h'"
    by (rule report_loop_step)
  show ?case
  proof (cases "c = c'")
    case True
    have "has_change (AList.update c'
            (entry\<lparr>hi_change := Some (change_of (py_sub (hi_value entry) prior))\<rparr>) h) c"
      using True by (simp add: has_change_def update_conv')
    with r show ?thesis by (rule report_loop_keeps)
  next
    case False
    with Cons.prems(2) have "c \<in> set cs" by simp
    with r show ?thesis by (rule Cons.IH)
  qed
qed

lemma report_loop_no_rows:
  assumes "no_rows lw"
  shows "isl (report_loop lw (c # cs) h)"
proof (cases "report_loop lw (c # cs) h")
  case (Inl e)
  then show ?thesis by simp
next
  case (Inr h')
  then obtain prior rest where "map_of lw c = Some (prior # rest)"
    by (rule report_loop_step)
  then have "(c, prior # rest) \<in> set lw" by (rule map_of_SomeD)
  with assms show ?thesis by (auto simp: no_rows_def list_all_iff)
qed

text \<open>
  Claim C4, as amended: when retrieving or parsing the prior snapshot raises, or the
  snapshot is read as a frame without rows, the report step raises and no report is
  returned; whenever lines 146-159 complete, every column of \<open>sli_columns\<close> has its
  change entry set.
\<close>

theorem report_sli_prior_unavailable:
  "(retrieved = Inl e \<or> (\<exists>lw. retrieved = Inr lw \<and> no_rows lw) \<longrightarrow>
      isl (report_sli template sli retrieved)) \<and>
   (report_html_inputs sli retrieved' = Inr h \<longrightarrow> list_all (has_change h) sli_columns)"
proof (intro conjI impI)
  assume "retrieved = Inl e \<or> (\<exists>lw. retrieved = Inr lw \<and> no_rows lw)"
  then show "isl (report_sli template sli retrieved)"
  proof
    assume "retrieved = Inl e"
    then show ?thesis
      by (simp add: report_sli_def report_html_inputs_def bind_err_def split: sum.splits)
  next
    assume "\<exists>lw. retrieved = Inr lw \<and> no_rows lw"
    then obtain lw where lw: "retrieved = Inr lw" "no_rows lw" by blast
    have no: "isl (report_loop lw sli_columns h0)" for h0
      unfolding sli_columns_eq by (rule report_loop_no_rows [OF lw(2)])
    show ?thesis
    proof (cases "evaluate_sli sli")
      case (Inl e')
      then show ?thesis
        by (simp add: report_sli_def report_html_inputs_def bind_err_def)
    next
      case (Inr h0)
      from no [of h0] obtain e' where "report_loop lw sli_columns h0 = Inl e'"
        by (auto simp: isl_def)
      with Inr show ?thesis
        by (simp add: lw(1) report_sli_def report_html_inputs_def bind_err_def)
    qed
  qed
next
  assume "report_html_inputs sli retrieved' = Inr h"
  then obtain h0 lw where "report_loop lw sli_columns h0 = Inr h"
    by (auto simp: report_html_inputs_def bind_err_def split: sum.splits)
  then have "has_change h c" if "c \<in> set sli_columns" for c
    using that by (rule report_loop_sets)
  then show "list_all (has_change h) sli_columns" by (simp add: list_all_iff)
qed

theorem report_sli_prior_unavailable_witness:
  "isl (report_sli (\<lambda>h. ''report'')
          [(''avg_total_request'', Num (Fin 100)),
           (''avg_successfull_request'', Num (Fin 95)),
           (''avg_up_time'', Num (Fin (9 / 10)))]
          (Inr [(''datetime'', []), (''timestamp'', []),
                (''avg_percentage_successfull_request'', []), (''avg_up_time'', [])])) \<and>
   list_all (has_change
       [(''avg_percentage_successfull_request'',
         \<lparr>hi_value = Fin 95, hi_name = ''Successfull requests User-API (avg)'',
          hi_measurement_unit = ''%'', hi_change = Some (ChangeNum (Fin 0))\<rparr>),
        (''avg_up_time'',
         \<lparr>hi_value = Fin 90, hi_name = ''Uptime User-API (avg)'',
          hi_measurement_unit = ''%'', hi_change = Some (ChangeNum NaN)\<rparr>)]) sli_columns"
proof -
  let ?sli = "[(''avg_total_request'', Num (Fin 100)),
               (''avg_successfull_request'', Num (Fin 95)),
               (''avg_up_time'', Num (Fin (9 / 10)))]"
  let ?empty = "[(''datetime'', []), (''timestamp'', []),
                 (''avg_percentage_successfull_request'', []), (''avg_up_time'', [])]"
  let ?prior = "[(''datetime'', [Fin 0]), (''timestamp'', [Fin 0]),
                 (''avg_percentage_successfull_request'', [Fin 95]), (''avg_up_time'', [NaN])]"
  let ?h = "[(''avg_percentage_successfull_request'',
         \<lparr>hi_value = Fin 95, hi_name = ''Successfull requests User-API (avg)'',
          hi_measurement_unit = ''%'', hi_change = Some (ChangeNum (Fin 0))\<rparr>),
        (''avg_up_time'',
         \<lparr>hi_value = Fin 90, hi_name = ''Uptime User-API (avg)'',
          hi_measurement_unit = ''%'', hi_change = Some (ChangeNum NaN)\<rparr>)]"
  have a: "Inr ?empty = Inl IndexError \<or> (\<exists>lw. Inr ?empty = Inr lw \<and> no_rows lw)"
    by (simp add: no_rows_def)
  have b: "report_html_inputs ?sli (Inr ?prior) = Inr ?h"
    by (simp add: report_eval)
  from report_sli_prior_unavailable
    [of "Inr ?empty" IndexError "\<lambda>h. ''report''" ?sli "Inr ?prior" ?h] a b
  show ?thesis by blast
qed

text \<open>
  Claim C4 as stated fails: with the prior snapshot missing (the retrieval raises), the
  report step raises the same exception instead of returning a report without change.
\<close>

theorem report_sli_missing_snapshot_raises:
  "report_sli (\<lambda>h. ''report'')
     [(''avg_total_request'', Num (Fin 100)),
      (''avg_successfull_request'', Num (Fin 95)),
      (''avg_up_time'', Num (Fin (9 / 10)))]
     (Inl (CephError ''NoSuchKey'')) = Inl (CephError ''NoSuchKey'')"
  by (simp add: report_sli_def report_html_inputs_def evaluate_sli_present bind_err_def)

section \<open>Properties of the collection\<close>









lemma metrics_vector_of_Some:
  "metrics_vector_of (map Some xs) = Inr [v \<leftarrow> xs. py_gt v (Fin 0)]"
  by (induction xs) (simp_all add: bind_err_def float_of_def)

lemma py_gt_zero: "py_gt v (Fin 0) \<longleftrightarrow> (\<exists>x. v = Fin x \<and> 0 < x)"
  by (cases v) simp_all

text \<open>
  Claim C8: for a range query whose samples all parse as floats, the reduction is applied
  to the samples \<open>v\<close> with \<open>v > 0\<close>, in order, and to nothing else; each of them is a
  finite, strictly positive number.
\<close>

theorem collect_query_range_filters:
  assumes "\<not> dry_run"
    and "custom_query_range pc q = Inr (map Some xs # others)"
  shows "collect_query dry_run pc manipulate (QueryDict q True action_type) =
           (case manipulate [v \<leftarrow> xs. py_gt v (Fin 0)] action_type of
              Inl e \<Rightarrow> ErrorMetricRetrieval | Inr result \<Rightarrow> Num result) \<and>
         (\<forall>v \<in> set [v \<leftarrow> xs. py_gt v (Fin 0)]. \<exists>x. v = Fin x \<and> 0 < x)"
  using assms
  by (simp add: collect_query_def query_result_def bind_err_def
      metrics_vector_of_Some py_gt_zero)

theorem collect_query_range_filters_witness:
  "collect_query False
     \<lparr>custom_query_range = (\<lambda>q. Inr [map Some [Fin 5, Fin 0, Fin (- 1), NaN, Fin 3]]),
      custom_query = (\<lambda>q. Inl (SourceError ''unused''))\<rparr>
     (\<lambda>v a. Inr (Fin (of_nat (length v))))
     (QueryDict ''sum(total)'' True ''average'') = Num (Fin 2)"
  using collect_query_range_filters
    [where dry_run = False and q = "''sum(total)''"
       and pc = "\<lparr>custom_query_range = (\<lambda>q. Inr [map Some [Fin 5, Fin 0, Fin (- 1), NaN, Fin 3]]),
                   custom_query = (\<lambda>q. Inl (SourceError ''unused''))\<rparr>"
       and xs = "[Fin 5, Fin 0, Fin (- 1), NaN, Fin 3]" and others = "[]"
       and manipulate = "\<lambda>v a. Inr (Fin (of_nat (length v)))" and action_type = "''average''"]
  by simp

section \<open>Properties of the persistence and the publication\<close>

lemma inputs_for_df_checks:
  assumes "map_of ctx metric_class = Some methods"
    and "df_method methods metrics datetime timestamp = Inr r"
    and "map_of cols metric_class = Some csv_columns"
  shows "inputs_for_df ctx cols datetime timestamp metric_class metrics =
           (if map fst r \<noteq> csv_columns
            then Inl (ColumnsException (map fst r) csv_columns) else Inr r)"
  using assms by (simp add: inputs_for_df_def bind_err_def getitem_def)

lemma inputs_for_df_declared:
  assumes "inputs_for_df ctx cols datetime timestamp metric_class metrics = Inr df"
  shows "map_of cols metric_class = Some (map fst df)"
  using assms
  by (auto simp: inputs_for_df_def bind_err_def getitem_def
      split: option.splits sum.splits if_splits)

lemma store_loop_declared:
  assumes "store_loop ctx cols datetime timestamp pm calls = (calls', err)"
    and "list_all (declared cols datetime) calls"
  shows "list_all (declared cols datetime) calls'"
  using assms
proof (induction pm arbitrary: calls)
  case Nil
  then show ?case by simp
next
  case (Cons a pm)
  obtain metric_class metrics where a: "a = (metric_class, metrics)" by (cases a)
  show ?case
  proof (cases "inputs_for_df ctx cols datetime timestamp metric_class metrics")
    case (Inl e)
    with Cons.prems a show ?thesis by simp
  next
    case (Inr df)
    let ?path = "metric_class @ ''/'' @ metric_class @ ''-'' @ datetime @ ''.csv''"
    let ?new = "[\<lparr>is_public = False, ceph_path = ?path, metrics_df = df\<rparr>,
                 \<lparr>is_public = True, ceph_path = ?path, metrics_df = df\<rparr>]"
    from inputs_for_df_declared [OF Inr] have "(metric_class, map fst df) \<in> set cols"
      by (rule map_of_SomeD)
    then have "list_all (declared cols datetime) ?new"
      by (auto simp: declared_def list_ex_iff)
    with Cons.prems(2) have "list_all (declared cols datetime) (calls @ ?new)" by simp
    moreover from Cons.prems(1) a Inr
    have "store_loop ctx cols datetime timestamp pm (calls @ ?new) = (calls', err)"
      by (simp add: Let_def)
    ultimately show ?thesis by (rule Cons.IH [rotated])
  qed
qed

text \<open>
  Claim C6: at a metric class whose computed row \<open>r\<close> has columns other than the declared
  ones, the persistence step raises and makes no store call for it; with exactly the
  declared columns it stores the row in both buckets and goes on. Every store call made
  by \<open>store_sli_periodic_metrics_to_ceph\<close> carries exactly the declared columns of its
  metric class.
\<close>

theorem store_checks_columns:
  assumes "map_of ctx metric_class = Some methods"
    and "df_method methods metrics datetime timestamp = Inr r"
    and "map_of cols metric_class = Some csv_columns"
  shows "store_loop ctx cols datetime timestamp ((metric_class, metrics) # rest) calls =
           (if map fst r \<noteq> csv_columns
            then (calls, Some (ColumnsException (map fst r) csv_columns))
            else store_loop ctx cols datetime timestamp rest
                   (calls @
                    [\<lparr>is_public = False,
                      ceph_path = metric_class @ ''/'' @ metric_class @ ''-'' @ datetime @ ''.csv'',
                      metrics_df = r\<rparr>,
                     \<lparr>is_public = True,
                      ceph_path = metric_class @ ''/'' @ metric_class @ ''-'' @ datetime @ ''.csv'',
                      metrics_df = r\<rparr>])) \<and>
         list_all (declared cols datetime)
           (fst (store_sli_periodic_metrics_to_ceph periodic_metrics ctx cols datetime timestamp))"
proof -
  have "list_all (declared cols datetime)
           (fst (store_sli_periodic_metrics_to_ceph periodic_metrics ctx cols datetime timestamp))"
    using store_loop_declared [of ctx cols datetime timestamp periodic_metrics "[]"]
    by (cases "store_loop ctx cols datetime timestamp periodic_metrics []")
       (simp add: store_sli_periodic_metrics_to_ceph_def)
  then show ?thesis
    by (simp add: inputs_for_df_checks [OF assms] Let_def)
qed

text \<open>A row with one column appended is refused; the row with the declared columns is
  stored twice.\<close>

theorem store_checks_columns_witness:
  "store_sli_periodic_metrics_to_ceph
     [(''user_api'', [(''avg_up_time'', Num (Fin 1))])]
     [(''user_api'',
       \<lparr>query = [],
        df_method = (\<lambda>sli d t.
          Inr [(''datetime'', CellStr d), (''timestamp'', CellInt t),
               (''avg_percentage_successfull_request'', CellSample (Num (Fin 95))),
               (''avg_up_time'', CellSample (Num (Fin 100))),
               (''extra'', CellInt 0)])\<rparr>)]
     [(''user_api'', total_columns [''datetime'', ''timestamp''])]
     ''2020-06-01'' 1590969600000 =
   ([], Some (ColumnsException
        [''datetime'', ''timestamp'', ''avg_percentage_successfull_request'', ''avg_up_time'',
         ''extra'']
        [''datetime'', ''timestamp'', ''avg_percentage_successfull_request'', ''avg_up_time''])) \<and>
   store_sli_periodic_metrics_to_ceph
     [(''user_api'', [(''avg_up_time'', Num (Fin 1))])]
     [(''user_api'',
       \<lparr>query = [],
        df_method = (\<lambda>sli d t.
          Inr [(''datetime'', CellStr d), (''timestamp'', CellInt t),
               (''avg_percentage_successfull_request'', CellSample (Num (Fin 95))),
               (''avg_up_time'', CellSample (Num (Fin 100)))])\<rparr>)]
     [(''user_api'', total_columns [''datetime'', ''timestamp''])]
     ''2020-06-01'' 1590969600000 =
   ([\<lparr>is_public = False, ceph_path = ''user_api/user_api-2020-06-01.csv'',
      metrics_df = [(''datetime'', CellStr ''2020-06-01''), (''timestamp'', CellInt 1590969600000),
               (''avg_percentage_successfull_request'', CellSample (Num (Fin 95))),
               (''avg_up_time'', CellSample (Num (Fin 100)))]\<rparr>,
     \<lparr>is_public = True, ceph_path = ''user_api/user_api-2020-06-01.csv'',
      metrics_df = [(''datetime'', CellStr ''2020-06-01''), (''timestamp'', CellInt 1590969600000),
               (''avg_percentage_successfull_request'', CellSample (Num (Fin 95))),
               (''avg_up_time'', CellSample (Num (Fin 100)))]\<rparr>], None)"
proof -
  let ?pm = "[(''user_api'', [(''avg_up_time'', Num (Fin 1))])]"
  let ?cols = "[(''user_api'', total_columns [''datetime'', ''timestamp''])]"
  let ?csv = "[''datetime'', ''timestamp'', ''avg_percentage_successfull_request'', ''avg_up_time'']"
  let ?row = "[(''datetime'', CellStr ''2020-06-01''), (''timestamp'', CellInt 1590969600000),
               (''avg_percentage_successfull_request'', CellSample (Num (Fin 95))),
               (''avg_up_time'', CellSample (Num (Fin 100)))]"
  let ?good = "\<lparr>query = [],
        df_method = (\<lambda>sli d t.
          Inr [(''datetime'', CellStr d), (''timestamp'', CellInt t),
               (''avg_percentage_successfull_request'', CellSample (Num (Fin 95))),
               (''avg_up_time'', CellSample (Num (Fin 100)))])\<rparr>"
  let ?bad = "\<lparr>query = [],
        df_method = (\<lambda>sli d t.
          Inr [(''datetime'', CellStr d), (''timestamp'', CellInt t),
               (''avg_percentage_successfull_request'', CellSample (Num (Fin 95))),
               (''avg_up_time'', CellSample (Num (Fin 100))),
               (''extra'', CellInt 0)])\<rparr>"
  have csv: "map_of ?cols ''user_api'' = Some ?csv"
    by (simp add: total_columns_def sli_columns_def USER_API_MEASUREMENT_UNIT_def)
  have bad: "map_of [(''user_api'', ?bad)] ''user_api'' = Some ?bad"
    and bad_row: "df_method ?bad [(''avg_up_time'', Num (Fin 1))] ''2020-06-01'' 1590969600000 =
      Inr (?row @ [(''extra'', CellInt 0)])"
    and good: "map_of [(''user_api'', ?good)] ''user_api'' = Some ?good"
    and good_row: "df_method ?good [(''avg_up_time'', Num (Fin 1))] ''2020-06-01'' 1590969600000 =
      Inr ?row"
    by simp_all
  from store_checks_columns [OF bad bad_row csv, of "[]" "[]" "[]"]
  have "store_sli_periodic_metrics_to_ceph ?pm [(''user_api'', ?bad)] ?cols
          ''2020-06-01'' 1590969600000 =
        ([], Some (ColumnsException (?csv @ [''extra'']) ?csv))"
    by (simp add: store_sli_periodic_metrics_to_ceph_def)
  moreover from store_checks_columns [OF good good_row csv, of "[]" "[]" "[]"]
  have "store_sli_periodic_metrics_to_ceph ?pm [(''user_api'', ?good)] ?cols
          ''2020-06-01'' 1590969600000 =
        ([\<lparr>is_public = False, ceph_path = ''user_api/user_api-2020-06-01.csv'', metrics_df = ?row\<rparr>,
          \<lparr>is_public = True, ceph_path = ''user_api/user_api-2020-06-01.csv'', metrics_df = ?row\<rparr>],
         None)"
    by (simp add: store_sli_periodic_metrics_to_ceph_def)
  ultimately show ?thesis by simp
qed






end
